theory Spec2Isabelle
  imports Complex_Main "HOL-Library.Sublist" "HOL-Library.Product_Lexorder"
begin

section \<open>The trade journal: data model\<close>

text \<open>
  The program is one script, \<^verbatim>\<open>trade_journal.py\<close>: a SQLite table \<^verbatim>\<open>trades\<close>, four
  functions over it, a form handler, a filter over the loaded table and two counts.
  The connection \<^verbatim>\<open>conn\<close> is a global; here every function takes the table and returns
  the new one. A raised exception is a value of \<open>error\<close> on the left of a sum.

  Floats: the type variable \<open>'f\<close> stands for Python's \<^verbatim>\<open>float\<close>. Its arithmetic is not
  modelled; the two float operations the script uses (\<^verbatim>\<open>tp / sl\<close> and \<^verbatim>\<open>round(x, 2)\<close>) are
  parameters of the form handler, and its only comparison (\<^verbatim>\<open>entry_price > 0\<close>) is the order
  of \<open>'f\<close>.
\<close>

datatype error =
    OperationalError  \<comment> \<open>\<^verbatim>\<open>sqlite3.OperationalError\<close>: no such column, or no row id left\<close>
  | ParserError       \<comment> \<open>\<^verbatim>\<open>pd.to_datetime\<close> on a string that is not a timestamp\<close>

text \<open>
  One row of \<^verbatim>\<open>trades\<close>. The column \<^verbatim>\<open>id\<close> is the field \<open>trade_id\<close> (\<open>id\<close> is the identity
  function of HOL). The field types are the types of the values the script binds:
  \<^verbatim>\<open>st.number_input(step=1)\<close> is an \<^verbatim>\<open>int\<close>, \<^verbatim>\<open>step=0.01\<close> a \<^verbatim>\<open>float\<close>, the select boxes and the
  text area strings. The three columns added by \<^verbatim>\<open>ALTER TABLE\<close> can hold \<^verbatim>\<open>NULL\<close>
  (\<open>None\<close>): in rows older than the column, and where the handler passes \<^verbatim>\<open>None\<close>.
\<close>

record 'f trade =
  trade_id :: int
  pair :: string
  trade_type :: string
  time :: string
  tp :: int
  sl :: int
  rr :: 'f
  reason :: string
  entry_price :: "'f option"
  result :: "string option"
  pips :: "int option"

text \<open>
  The table: its columns (name and declared type, in order), its rows in row id order,
  and the counter that \<^verbatim>\<open>AUTOINCREMENT\<close> keeps in \<^verbatim>\<open>sqlite_sequence\<close>.
\<close>

record 'f table =
  columns :: "(string \<times> string) list"
  rows :: "'f trade list"
  seq :: int

section \<open>DB setup (lines 8 to 35)\<close>

definition base_columns :: "(string \<times> string) list" where
  "base_columns =
     [(''id'', ''INTEGER PRIMARY KEY AUTOINCREMENT''),
      (''pair'', ''TEXT''),
      (''trade_type'', ''TEXT''),
      (''time'', ''TEXT''),
      (''tp'', ''INTEGER''),
      (''sl'', ''INTEGER''),
      (''rr'', ''REAL''),
      (''reason'', ''TEXT'')]"

text \<open>\<^verbatim>\<open>CREATE TABLE IF NOT EXISTS trades (...)\<close>; \<open>None\<close> is a database file without the table.\<close>

definition create_table_if_not_exists :: "'f table option \<Rightarrow> 'f table" where
  "create_table_if_not_exists db =
     (case db of
        None \<Rightarrow> \<lparr>columns = base_columns, rows = [], seq = 0\<rparr>
      | Some t \<Rightarrow> t)"

text \<open>\<^verbatim>\<open>[row[1] for row in c.execute("PRAGMA table_info(trades)").fetchall()]\<close>\<close>

definition table_info :: "'f table \<Rightarrow> string list" where
  "table_info t = map fst (columns t)"

text \<open>
  \<^verbatim>\<open>ALTER TABLE trades ADD COLUMN ...\<close>, one definition for each of the three statements:
  the column is appended and reads \<^verbatim>\<open>NULL\<close> in every row that exists.
\<close>

definition add_column_entry_price :: "'f table \<Rightarrow> 'f table" where
  "add_column_entry_price t =
     t\<lparr>columns := columns t @ [(''entry_price'', ''REAL'')],
       rows := map (\<lambda>r. r\<lparr>entry_price := None\<rparr>) (rows t)\<rparr>"

definition add_column_result :: "'f table \<Rightarrow> 'f table" where
  "add_column_result t =
     t\<lparr>columns := columns t @ [(''result'', ''TEXT'')],
       rows := map (\<lambda>r. r\<lparr>result := None\<rparr>) (rows t)\<rparr>"

definition add_column_pips :: "'f table \<Rightarrow> 'f table" where
  "add_column_pips t =
     t\<lparr>columns := columns t @ [(''pips'', ''INTEGER'')],
       rows := map (\<lambda>r. r\<lparr>pips := None\<rparr>) (rows t)\<rparr>"

text \<open>
  The whole setup, as the script runs it at every start: \<open>existing_cols\<close> is read once,
  before the first \<^verbatim>\<open>ALTER\<close>.
\<close>

definition initialize :: "'f table option \<Rightarrow> 'f table" where
  "initialize db =
     (let t0 = create_table_if_not_exists db;
          existing_cols = table_info t0;
          t1 = (if ''entry_price'' \<notin> set existing_cols then add_column_entry_price t0 else t0);
          t2 = (if ''result'' \<notin> set existing_cols then add_column_result t1 else t1);
          t3 = (if ''pips'' \<notin> set existing_cols then add_column_pips t2 else t2)
      in t3)"

text \<open>A store on which the three optional columns exist already.\<close>

definition migrated :: "'f table \<Rightarrow> bool" where
  "migrated t =
     (''entry_price'' \<in> set (table_info t) \<and> ''result'' \<in> set (table_info t)
      \<and> ''pips'' \<in> set (table_info t))"

section \<open>Functions (lines 37 to 54)\<close>

text \<open>A statement that names a column the table does not have raises \<open>OperationalError\<close>.\<close>

definition has_columns :: "string list \<Rightarrow> 'f table \<Rightarrow> bool" where
  "has_columns cs t = (\<forall>c \<in> set cs. c \<in> set (table_info t))"

text \<open>
  \<^verbatim>\<open>AUTOINCREMENT\<close>: the new row id is one more than the largest row id the table ever
  held; when that is the largest 64-bit integer the insert fails.
\<close>

definition largest_rowid :: "'f table \<Rightarrow> int" where
  "largest_rowid t = fold max (map trade_id (rows t)) (seq t)"

definition max_rowid :: int where
  "max_rowid = 9223372036854775807"

definition insert_columns :: "string list" where
  "insert_columns =
     [''pair'', ''trade_type'', ''time'', ''entry_price'', ''tp'', ''sl'', ''rr'',
      ''result'', ''pips'', ''reason'']"

text \<open>
  \<^verbatim>\<open>insert_trade(pair, trade_type, time, entry_price, tp, sl, rr, result, pips, reason)\<close>.
  The parameters carry a prime, the unprimed names being the fields of the row.
  \<open>result'\<close> and \<open>pips'\<close> are optional because the caller passes \<^verbatim>\<open>None\<close> for them.
\<close>

definition insert_trade ::
  "string \<Rightarrow> string \<Rightarrow> string \<Rightarrow> 'f \<Rightarrow> int \<Rightarrow> int \<Rightarrow> 'f \<Rightarrow> string option \<Rightarrow> int option
     \<Rightarrow> string \<Rightarrow> 'f table \<Rightarrow> error + 'f table" where
  "insert_trade pair' trade_type' time' entry_price' tp' sl' rr' result' pips' reason' t =
     (if \<not> has_columns insert_columns t then Inl OperationalError
      else if max_rowid \<le> largest_rowid t then Inl OperationalError
      else
        Inr (t\<lparr>rows := rows t @
                 [\<lparr>trade_id = largest_rowid t + 1, pair = pair', trade_type = trade_type',
                   time = time', tp = tp', sl = sl', rr = rr', reason = reason',
                   entry_price = Some entry_price', result = result', pips = pips'\<rparr>],
               seq := largest_rowid t + 1\<rparr>))"

text \<open>\<^verbatim>\<open>pd.read_sql("SELECT * FROM trades", conn)\<close>: every row, in row id order.\<close>

definition get_all_trades :: "'f table \<Rightarrow> 'f trade list" where
  "get_all_trades t = rows t"

text \<open>\<^verbatim>\<open>DELETE FROM trades WHERE id = ?\<close>\<close>

definition delete_trade :: "int \<Rightarrow> 'f table \<Rightarrow> error + 'f table" where
  "delete_trade trade_id' t =
     (if \<not> has_columns [''id''] t then Inl OperationalError
      else Inr (t\<lparr>rows := filter (\<lambda>r. trade_id r \<noteq> trade_id') (rows t)\<rparr>))"

text \<open>\<^verbatim>\<open>UPDATE trades SET result = ?, pips = ? WHERE id = ?\<close>\<close>

definition update_result_pips ::
  "int \<Rightarrow> string option \<Rightarrow> int option \<Rightarrow> 'f table \<Rightarrow> error + 'f table" where
  "update_result_pips trade_id' result' pips' t =
     (if \<not> has_columns [''result'', ''pips'', ''id''] t then Inl OperationalError
      else
        Inr (t\<lparr>rows := map (\<lambda>r. if trade_id r = trade_id'
                                 then r\<lparr>result := result', pips := pips'\<rparr> else r) (rows t)\<rparr>))"

section \<open>The trade entry form (lines 71 to 96)\<close>

datatype message =
    Success  \<comment> \<open>\<^verbatim>\<open>st.success("Trade saved successfully!")\<close>\<close>
  | Rejected \<comment> \<open>\<^verbatim>\<open>st.error("TP, SL, and Entry Price must be greater than 0")\<close>\<close>

text \<open>\<^verbatim>\<open>result or None\<close> on a string and \<^verbatim>\<open>pips or None\<close> on an integer.\<close>

definition str_or_None :: "string \<Rightarrow> string option" where
  "str_or_None s = (if s = [] then None else Some s)"

definition int_or_None :: "int \<Rightarrow> int option" where
  "int_or_None n = (if n = 0 then None else Some n)"

text \<open>
  The body of \<^verbatim>\<open>if submitted:\<close>. \<open>truediv\<close> is \<^verbatim>\<open>/\<close> on two integers and \<open>round2\<close> is
  \<^verbatim>\<open>round(x, 2)\<close>; \<open>now\<close> is the string
  \<^verbatim>\<open>datetime.now(pytz.timezone("Asia/Kolkata")).strftime("%Y-%m-%d %H:%M:%S")\<close>.
  An exception of \<open>insert_trade\<close> leaves the handler before \<^verbatim>\<open>st.success\<close>.
\<close>

definition trade_form ::
  "(int \<Rightarrow> int \<Rightarrow> 'f) \<Rightarrow> ('f \<Rightarrow> 'f) \<Rightarrow> string \<Rightarrow> string \<Rightarrow> string \<Rightarrow> ('f::{zero,linorder})
     \<Rightarrow> int \<Rightarrow> int \<Rightarrow> string \<Rightarrow> int \<Rightarrow> string \<Rightarrow> 'f table \<Rightarrow> error + ('f table \<times> message)" where
  "trade_form truediv round2 now pair' trade_type' entry_price' tp' sl' result' pips' reason' t =
     (if tp' > 0 \<and> sl' > 0 \<and> entry_price' > 0 then
        (let rr' = round2 (truediv tp' sl') in
         case insert_trade pair' trade_type' now entry_price' tp' sl' rr'
                (str_or_None result') (int_or_None pips') reason' t of
           Inl e \<Rightarrow> Inl e
         | Inr t' \<Rightarrow> Inr (t', Success))
      else Inr (t, Rejected))"

section \<open>Timestamps\<close>

text \<open>
  A \<^verbatim>\<open>pd.Timestamp\<close> without time zone, by its calendar fields, and a \<^verbatim>\<open>datetime.date\<close> as
  (year, month, day). Two timestamps compare as their fields do, most significant first.
\<close>

record datetime =
  year :: int
  month :: nat
  day :: nat
  hour :: nat
  minute :: nat
  second :: nat

type_synonym date = "int \<times> nat \<times> nat"


definition timestamp_key :: "datetime \<Rightarrow> int \<times> nat \<times> nat \<times> nat \<times> nat \<times> nat" where
  "timestamp_key dt = (year dt, month dt, day dt, hour dt, minute dt, second dt)"

text \<open>\<^verbatim>\<open>pd.to_datetime(date_filter)\<close> on a date: midnight of that day.\<close>

definition to_datetime_date :: "date \<Rightarrow> datetime" where
  "to_datetime_date d =
     (case d of (y, m, dd) \<Rightarrow>
        \<lparr>year = y, month = m, day = dd, hour = 0, minute = 0, second = 0\<rparr>)"

text \<open>
  \<^verbatim>\<open>pd.to_datetime(series)\<close> on a column of strings, with the default \<^verbatim>\<open>errors="raise"\<close>.
  The string parser is pandas' own and not part of the script: it is the parameter \<open>p\<close>,
  \<open>None\<close> where it rejects the string. One rejected string raises for the whole column.
\<close>

fun to_datetime :: "(string \<Rightarrow> datetime option) \<Rightarrow> string list \<Rightarrow> error + datetime list" where
  "to_datetime p [] = Inr []"
| "to_datetime p (s # ss) =
     (case p s of
        None \<Rightarrow> Inl ParserError
      | Some dt \<Rightarrow> (case to_datetime p ss of Inl e \<Rightarrow> Inl e | Inr dts \<Rightarrow> Inr (dt # dts)))"

subsection \<open>The calendar\<close>

definition is_leap :: "int \<Rightarrow> bool" where
  "is_leap y = (y mod 4 = 0 \<and> (y mod 100 \<noteq> 0 \<or> y mod 400 = 0))"

definition days_in_month :: "int \<Rightarrow> nat \<Rightarrow> nat" where
  "days_in_month y m =
     (if m = 2 then (if is_leap y then 29 else 28)
      else if m = 4 \<or> m = 6 \<or> m = 9 \<or> m = 11 then 30 else 31)"

definition valid_datetime :: "datetime \<Rightarrow> bool" where
  "valid_datetime dt =
     (1 \<le> month dt \<and> month dt \<le> 12 \<and> 1 \<le> day dt \<and> day dt \<le> days_in_month (year dt) (month dt)
      \<and> hour dt < 24 \<and> minute dt < 60 \<and> second dt < 60)"

text \<open>Days before 1 January of year \<open>y\<close>, and before the first of month \<open>m\<close> within the year.\<close>

definition days_before_year :: "int \<Rightarrow> int" where
  "days_before_year y = (y - 1) * 365 + (y - 1) div 4 - (y - 1) div 100 + (y - 1) div 400"

definition days_before_month :: "int \<Rightarrow> nat \<Rightarrow> int" where
  "days_before_month y m =
     [0, 31, 59, 90, 120, 151, 181, 212, 243, 273, 304, 334] ! (m - 1)
     + (if m > 2 \<and> is_leap y then 1 else 0)"

text \<open>The day number counted from 0001-01-01 as day 1, a Monday.\<close>

definition toordinal :: "int \<Rightarrow> nat \<Rightarrow> nat \<Rightarrow> int" where
  "toordinal y m d = days_before_year y + days_before_month y m + int d"

text \<open>The Monday that starts ISO week 1 of year \<open>y\<close>: the week holding the first Thursday.\<close>

definition isoweek1monday :: "int \<Rightarrow> int" where
  "isoweek1monday y =
     (let firstday = toordinal y 1 1;
          firstweekday = (firstday + 6) mod 7;
          week1monday = firstday - firstweekday
      in if firstweekday > 3 then week1monday + 7 else week1monday)"

text \<open>
  \<^verbatim>\<open>.dt.isocalendar().week\<close>: the ISO-8601 week number of the timestamp's day. The first
  days of January can belong to the last week of the year before, the last days of
  December to week 1 of the year after.
\<close>

definition isocalendar_week :: "datetime \<Rightarrow> nat" where
  "isocalendar_week dt =
     (let today = toordinal (year dt) (month dt) (day dt);
          week = (today - isoweek1monday (year dt)) div 7
      in if week < 0 then nat ((today - isoweek1monday (year dt - 1)) div 7 + 1)
         else if week \<ge> 52 \<and> today \<ge> isoweek1monday (year dt + 1) then 1
         else nat (week + 1))"

subsection \<open>The timestamps the form handler writes\<close>

text \<open>
  A parser for exactly \<^verbatim>\<open>%Y-%m-%d %H:%M:%S\<close> with a four-digit year, the strings the
  handler stores. It is one instance of the parameter \<open>p\<close> of \<open>to_datetime\<close>, used to run
  the definitions on examples; pandas accepts other spellings too.
\<close>

definition digit_val :: "char \<Rightarrow> nat option" where
  "digit_val c =
     map_of [(CHR ''0'', 0), (CHR ''1'', 1), (CHR ''2'', 2), (CHR ''3'', 3), (CHR ''4'', 4),
             (CHR ''5'', 5), (CHR ''6'', 6), (CHR ''7'', 7), (CHR ''8'', 8), (CHR ''9'', 9)] c"

fun digits_val :: "nat \<Rightarrow> string \<Rightarrow> nat option" where
  "digits_val acc [] = Some acc"
| "digits_val acc (c # cs) =
     (case digit_val c of None \<Rightarrow> None | Some d \<Rightarrow> digits_val (10 * acc + d) cs)"

definition parse_timestamp :: "string \<Rightarrow> datetime option" where
  "parse_timestamp s =
     (if length s = 19 \<and> s ! 4 = CHR ''-'' \<and> s ! 7 = CHR ''-'' \<and> s ! 10 = CHR '' ''
         \<and> s ! 13 = CHR '':'' \<and> s ! 16 = CHR '':'' then
        (case digits_val 0 (take 4 s) of None \<Rightarrow> None | Some y \<Rightarrow>
        (case digits_val 0 (take 2 (drop 5 s)) of None \<Rightarrow> None | Some m \<Rightarrow>
        (case digits_val 0 (take 2 (drop 8 s)) of None \<Rightarrow> None | Some d \<Rightarrow>
        (case digits_val 0 (take 2 (drop 11 s)) of None \<Rightarrow> None | Some h \<Rightarrow>
        (case digits_val 0 (take 2 (drop 14 s)) of None \<Rightarrow> None | Some mi \<Rightarrow>
        (case digits_val 0 (take 2 (drop 17 s)) of None \<Rightarrow> None | Some se \<Rightarrow>
           (let dt = \<lparr>year = int y, month = m, day = d, hour = h, minute = mi, second = se\<rparr>
            in if valid_datetime dt then Some dt else None)))))))
      else None)"

section \<open>Filters (lines 98 to 113)\<close>

text \<open>
  The three boolean columns and the row selection \<^verbatim>\<open>all_trades[mask]\<close>, as pandas
  evaluates them: each column in full, then \<^verbatim>\<open>&\<close> element by element.
\<close>

definition isin :: "'a list \<Rightarrow> 'a list \<Rightarrow> bool list" where
  "isin series values = map (\<lambda>v. v \<in> set values) series"

definition series_ge :: "datetime list \<Rightarrow> datetime \<Rightarrow> bool list" where
  "series_ge series x = map (\<lambda>t. timestamp_key x \<le> timestamp_key t) series"

definition series_and :: "bool list \<Rightarrow> bool list \<Rightarrow> bool list" where
  "series_and a b = map (\<lambda>(x, y). x \<and> y) (zip a b)"

definition select_rows :: "'a list \<Rightarrow> bool list \<Rightarrow> 'a list" where
  "select_rows df keep = map fst (filter snd (zip df keep))"

definition filtered ::
  "(string \<Rightarrow> datetime option) \<Rightarrow> 'f trade list \<Rightarrow> string list \<Rightarrow> string list \<Rightarrow> date
     \<Rightarrow> error + 'f trade list" where
  "filtered p all_trades pair_filter type_filter date_filter =
     (case to_datetime p (map time all_trades) of
        Inl e \<Rightarrow> Inl e
      | Inr parsed \<Rightarrow>
          Inr (select_rows all_trades
                 (series_and
                    (series_and (isin (map pair all_trades) pair_filter)
                                (isin (map trade_type all_trades) type_filter))
                    (series_ge parsed (to_datetime_date date_filter)))))"



section \<open>Weekly and monthly counts (lines 149 to 168)\<close>

text \<open>\<^verbatim>\<open>df.groupby(key).size()\<close>: the distinct keys in ascending order, each with its count.\<close>

definition groupby_size :: "nat list \<Rightarrow> (nat \<times> nat) list" where
  "groupby_size keys = map (\<lambda>k. (k, count_list keys k)) (sort (remdups keys))"

text \<open>
  The two series \<open>weekly\<close> and \<open>monthly\<close> that the charts show; \<open>None\<close> is the branch
  \<^verbatim>\<open>st.info("No data to show stats.")\<close> of an empty table.
\<close>

definition weekly_monthly ::
  "(string \<Rightarrow> datetime option) \<Rightarrow> 'f trade list
     \<Rightarrow> error + ((nat \<times> nat) list \<times> (nat \<times> nat) list) option" where
  "weekly_monthly p all_trades =
     (if all_trades \<noteq> [] then
        (case to_datetime p (map time all_trades) of
           Inl e \<Rightarrow> Inl e
         | Inr parsed \<Rightarrow>
             (let week = map isocalendar_week parsed;
                  month' = map month parsed
              in Inr (Some (groupby_size week, groupby_size month'))))
      else Inr None)"

text \<open>
  The week and the month a record's time falls in, for a parser \<open>p\<close>; \<open>None\<close> when the
  time does not parse.
\<close>

definition week_of :: "(string \<Rightarrow> datetime option) \<Rightarrow> 'f trade \<Rightarrow> nat option" where
  "week_of p r = map_option isocalendar_week (p (time r))"


section \<open>A journal to run the definitions on\<close>

text \<open>
  Floats are taken as reals in the examples, with exact division and rounding to two
  decimals; on the numbers used (50 / 25, 30 / 20, 40 / 40) Python's floats give the same
  values. Three trades, ids 1, 2 and 4 (trade 3 was deleted), in ISO weeks 11, 1 and 11.
\<close>

definition example_truediv :: "int \<Rightarrow> int \<Rightarrow> real" where
  "example_truediv a b = real_of_int a / real_of_int b"

definition example_round2 :: "real \<Rightarrow> real" where
  "example_round2 x = real_of_int (round (x * 100)) / 100"

definition example_trades :: "real trade list" where
  "example_trades =
     [\<lparr>trade_id = 1, pair = ''EURUSD'', trade_type = ''Buy'', time = ''2025-03-14 09:05:59'',
       tp = 50, sl = 25, rr = 2, reason = ''breakout'', entry_price = Some 1.1,
       result = None, pips = None\<rparr>,
      \<lparr>trade_id = 2, pair = ''USDJPY'', trade_type = ''Sell'', time = ''2024-12-30 18:30:00'',
       tp = 30, sl = 20, rr = 1.5, reason = [], entry_price = Some 151.25,
       result = Some ''Win'', pips = Some 25\<rparr>,
      \<lparr>trade_id = 4, pair = ''EURUSD'', trade_type = ''Buy'', time = ''2025-03-10 11:00:00'',
       tp = 40, sl = 40, rr = 1, reason = ''retest'', entry_price = Some 1.09,
       result = Some ''Loss'', pips = Some (- 40)\<rparr>]"

definition example_table :: "real table" where
  "example_table = (initialize None)\<lparr>rows := example_trades, seq := 4\<rparr>"


section \<open>Facts about the example journal\<close>

lemmas setup_defs = initialize_def create_table_if_not_exists_def table_info_def
  base_columns_def add_column_entry_price_def add_column_result_def add_column_pips_def Let_def

lemmas parse_defs = parse_timestamp_def digit_val_def valid_datetime_def days_in_month_def
  is_leap_def

lemmas week_defs = isocalendar_week_def isoweek1monday_def toordinal_def days_before_year_def
  days_before_month_def is_leap_def Let_def

lemma example_table_columns:
  "table_info example_table =
     [''id'', ''pair'', ''trade_type'', ''time'', ''tp'', ''sl'', ''rr'', ''reason'',
      ''entry_price'', ''result'', ''pips'']"
  by (simp add: example_table_def setup_defs)

lemma example_table_rows: "rows example_table = example_trades"
  by (simp add: example_table_def)

lemma example_largest_rowid: "largest_rowid example_table = 4"
  by (simp add: largest_rowid_def example_table_def example_trades_def)

lemma example_insertable:
  "has_columns insert_columns example_table" "largest_rowid example_table < max_rowid"
  by (simp_all add: has_columns_def insert_columns_def example_table_columns
      example_largest_rowid max_rowid_def)

lemma example_updatable: "has_columns [''result'', ''pips'', ''id''] example_table"
  by (simp add: has_columns_def example_table_columns)

lemma example_deletable: "has_columns [''id''] example_table"
  by (simp add: has_columns_def example_table_columns)


lemma example_weeks:
  "map (week_of parse_timestamp) example_trades = [Some 11, Some 1, Some 11]"
  by (simp add: example_trades_def week_of_def parse_defs week_defs)

lemma example_rr: "example_round2 (example_truediv 50 25) = 2"
  by (simp add: example_round2_def example_truediv_def)


section \<open>The schema setup is idempotent\<close>

lemma initialize_migrated: "migrated (initialize db)"
  by (simp add: initialize_def migrated_def table_info_def Let_def
      add_column_entry_price_def add_column_result_def add_column_pips_def)

lemma initialize_fixes_migrated: "migrated t \<Longrightarrow> initialize (Some t) = t"
  by (simp add: initialize_def migrated_def create_table_if_not_exists_def Let_def)

lemma example_migrated: "migrated example_table"
  by (simp add: migrated_def example_table_columns)

text \<open>
  C7: on a store that already has the three optional columns, running the setup again
  (create-if-missing, the column probe, the conditional \<^verbatim>\<open>ALTER\<close>s) returns the very same
  store: the same columns, the same rows, the same counter.
\<close>

theorem initialize_idempotent:
  assumes "migrated t"
  shows "initialize (Some t) = t"
  using assms by (rule initialize_fixes_migrated)

theorem initialize_idempotent_witness:
  "migrated example_table \<and> initialize (Some example_table) = example_table
   \<and> rows (initialize (Some example_table)) = example_trades"
  using initialize_idempotent [OF example_migrated] example_migrated example_table_rows
  by simp

text \<open>The first run on an empty database file produces such a store, so a second run keeps it.\<close>

lemma initialize_twice: "initialize (Some (initialize db)) = initialize db"
  by (rule initialize_fixes_migrated [OF initialize_migrated])

section \<open>Update and delete\<close>

text \<open>
  C4: \<open>update_result_pips\<close> overwrites \<open>result\<close> and \<open>pips\<close> of the rows whose id matches
  and nothing else: such a row keeps every other field, every other row is the row it
  was, and the columns, the number of rows and the counter stay.
\<close>

theorem update_result_pips_frame:
  assumes "has_columns [''result'', ''pips'', ''id''] t"
  shows "\<exists>t'. update_result_pips i res pp t = Inr t'
           \<and> columns t' = columns t \<and> seq t' = seq t
           \<and> length (rows t') = length (rows t)
           \<and> (\<forall>k < length (rows t).
                 (trade_id (rows t ! k) = i \<longrightarrow>
                    rows t' ! k = (rows t ! k)\<lparr>result := res, pips := pp\<rparr>)
               \<and> (trade_id (rows t ! k) \<noteq> i \<longrightarrow> rows t' ! k = rows t ! k))"
  using assms by (simp add: update_result_pips_def)

theorem update_result_pips_frame_witness:
  "has_columns [''result'', ''pips'', ''id''] example_table
   \<and> (\<exists>t'. update_result_pips 1 (Some ''Win'') (Some 25) example_table = Inr t'
           \<and> columns t' = columns example_table \<and> seq t' = seq example_table
           \<and> length (rows t') = length (rows example_table)
           \<and> (\<forall>k < length (rows example_table).
                 (trade_id (rows example_table ! k) = 1 \<longrightarrow>
                    rows t' ! k = (rows example_table ! k)\<lparr>result := Some ''Win'', pips := Some 25\<rparr>)
               \<and> (trade_id (rows example_table ! k) \<noteq> 1 \<longrightarrow>
                    rows t' ! k = rows example_table ! k)))"
  using update_result_pips_frame [OF example_updatable, of 1 "Some ''Win''" "Some 25"]
    example_updatable
  by blast

lemma update_example:
  "update_result_pips 1 (Some ''Win'') (Some 25) example_table =
     Inr (example_table\<lparr>rows :=
            [(example_trades ! 0)\<lparr>result := Some ''Win'', pips := Some 25\<rparr>,
             example_trades ! 1, example_trades ! 2]\<rparr>)"
  by (simp add: update_result_pips_def example_updatable example_table_rows)
    (simp add: example_trades_def)

text \<open>
  C5: for an id that no stored row has, \<open>update_result_pips\<close> and \<open>delete_trade\<close> both
  return without error and return the store they were given.
\<close>

theorem not_found_noop:
  assumes "has_columns [''result'', ''pips'', ''id''] t"
    and "i \<notin> set (map trade_id (rows t))"
  shows "update_result_pips i res pp t = Inr t \<and> delete_trade i t = Inr t"
proof -
  have "map (\<lambda>r. if trade_id r = i then r\<lparr>result := res, pips := pp\<rparr> else r) (rows t) = rows t"
    using assms(2) by (intro map_idI) auto
  moreover have "filter (\<lambda>r. trade_id r \<noteq> i) (rows t) = rows t"
    using assms(2) by (intro filter_True) auto
  ultimately show ?thesis
    using assms(1) by (simp add: update_result_pips_def delete_trade_def has_columns_def)
qed

theorem not_found_noop_witness:
  "has_columns [''result'', ''pips'', ''id''] example_table
   \<and> 3 \<notin> set (map trade_id (rows example_table))
   \<and> update_result_pips 3 (Some ''Win'') (Some 25) example_table = Inr example_table
   \<and> delete_trade 3 example_table = Inr example_table"
proof -
  have h: "3 \<notin> set (map trade_id (rows example_table))"
    by (simp add: example_table_rows example_trades_def)
  from not_found_noop [OF example_updatable h] example_updatable h show ?thesis
    by blast
qed

text \<open>
  C6: \<open>delete_trade\<close> returns a store, and \<open>get_all_trades\<close> on it lists no row with the
  deleted id.
\<close>

theorem delete_then_list:
  assumes "has_columns [''id''] t"
  shows "\<exists>t'. delete_trade i t = Inr t' \<and> i \<notin> set (map trade_id (get_all_trades t'))"
  using assms by (auto simp: delete_trade_def get_all_trades_def)

theorem delete_then_list_witness:
  "has_columns [''id''] example_table
   \<and> (\<exists>t'. delete_trade 2 example_table = Inr t'
          \<and> 2 \<notin> set (map trade_id (get_all_trades t')))"
  using delete_then_list [OF example_deletable, of 2] example_deletable
  by blast

lemma delete_example:
  "delete_trade 2 example_table =
     Inr (example_table\<lparr>rows := [example_trades ! 0, example_trades ! 2]\<rparr>)"
  by (simp add: delete_trade_def example_deletable example_table_rows)
    (simp add: example_trades_def)

section \<open>The filter\<close>









lemma filtered_example:
  "filtered parse_timestamp example_trades [''EURUSD''] [''Buy''] (2025, 3, 11)
     = Inr [example_trades ! 0]"
  by (simp add: filtered_def example_trades_def parse_defs isin_def series_ge_def
      series_and_def select_rows_def timestamp_key_def to_datetime_date_def)

section \<open>The weekly and monthly counts\<close>










lemma weekly_monthly_example:
  "weekly_monthly parse_timestamp example_trades =
     Inr (Some ([(1, 1), (11, 2)], [(3, 2), (12, 1)]))"
  by (simp add: weekly_monthly_def example_trades_def parse_defs groupby_size_def week_defs)




section \<open>The form handler\<close>

lemma insert_trade_ok:
  assumes "has_columns insert_columns t" and "largest_rowid t < max_rowid"
  shows "insert_trade pair' trade_type' time' entry_price' tp' sl' rr' result' pips' reason' t =
           Inr (t\<lparr>rows := rows t @
                 [\<lparr>trade_id = largest_rowid t + 1, pair = pair', trade_type = trade_type',
                   time = time', tp = tp', sl = sl', rr = rr', reason = reason',
                   entry_price = Some entry_price', result = result', pips = pips'\<rparr>],
               seq := largest_rowid t + 1\<rparr>)"
  using assms by (simp add: insert_trade_def)

lemma trade_form_ok:
  assumes "0 < tp'" and "0 < sl'" and "0 < entry_price'"
    and "has_columns insert_columns t" and "largest_rowid t < max_rowid"
  shows "trade_form truediv round2 now pair' trade_type' entry_price' tp' sl' result' pips'
           reason' t =
         Inr (t\<lparr>rows := rows t @
                 [\<lparr>trade_id = largest_rowid t + 1, pair = pair', trade_type = trade_type',
                   time = now, tp = tp', sl = sl', rr = round2 (truediv tp' sl'),
                   reason = reason', entry_price = Some entry_price',
                   result = str_or_None result', pips = int_or_None pips'\<rparr>],
               seq := largest_rowid t + 1\<rparr>, Success)"
  using assms by (simp add: trade_form_def insert_trade_ok)

text \<open>
  C1, as the code has it: a submission with \<open>tp > 0\<close>, \<open>sl > 0\<close> and \<open>entry_price > 0\<close>
  stores one new row whose \<open>rr\<close> is \<open>round(tp / sl, 2)\<close>, computed by the handler from the
  \<open>tp\<close> and \<open>sl\<close> it stores; the handler has no \<open>rr\<close> input. \<open>insert_trade\<close> itself
  stores the \<open>rr\<close> its caller passes, whatever \<open>tp\<close> and \<open>sl\<close> are.
\<close>

theorem form_rr_recomputed:
  assumes "0 < tp'" and "0 < sl'" and "0 < entry_price'"
    and "has_columns insert_columns t" and "largest_rowid t < max_rowid"
  shows "(\<exists>r. trade_form truediv round2 now pair' trade_type' entry_price' tp' sl' result' pips'
                reason' t
              = Inr (t\<lparr>rows := rows t @ [r], seq := trade_id r\<rparr>, Success)
            \<and> tp r = tp' \<and> sl r = sl' \<and> rr r = round2 (truediv tp' sl'))
       \<and> (\<exists>r. insert_trade pair' trade_type' now entry_price' tp' sl' rr' result'' pips''
                reason' t
              = Inr (t\<lparr>rows := rows t @ [r], seq := trade_id r\<rparr>)
            \<and> tp r = tp' \<and> sl r = sl' \<and> rr r = rr')"
proof
  let ?r = "\<lparr>trade_id = largest_rowid t + 1, pair = pair', trade_type = trade_type',
             time = now, tp = tp', sl = sl', rr = round2 (truediv tp' sl'), reason = reason',
             entry_price = Some entry_price', result = str_or_None result',
             pips = int_or_None pips'\<rparr>"
  show "\<exists>r. trade_form truediv round2 now pair' trade_type' entry_price' tp' sl' result' pips'
                reason' t
              = Inr (t\<lparr>rows := rows t @ [r], seq := trade_id r\<rparr>, Success)
            \<and> tp r = tp' \<and> sl r = sl' \<and> rr r = round2 (truediv tp' sl')"
    using assms by (intro exI [of _ ?r]) (simp add: trade_form_ok)
next
  let ?r = "\<lparr>trade_id = largest_rowid t + 1, pair = pair', trade_type = trade_type',
             time = now, tp = tp', sl = sl', rr = rr', reason = reason',
             entry_price = Some entry_price', result = result'', pips = pips''\<rparr>"
  show "\<exists>r. insert_trade pair' trade_type' now entry_price' tp' sl' rr' result'' pips''
                reason' t
              = Inr (t\<lparr>rows := rows t @ [r], seq := trade_id r\<rparr>)
            \<and> tp r = tp' \<and> sl r = sl' \<and> rr r = rr'"
    using assms by (intro exI [of _ ?r]) (simp add: insert_trade_ok)
qed

theorem form_rr_recomputed_witness:
  "(0::int) < 50 \<and> (0::int) < 25 \<and> (0::real) < 1.1
   \<and> has_columns insert_columns example_table \<and> largest_rowid example_table < max_rowid
   \<and> (\<exists>r. trade_form example_truediv example_round2 ''2025-03-17 10:00:00'' ''GBPUSD'' ''Sell''
              1.1 50 25 [] 0 ''news'' example_table
            = Inr (example_table\<lparr>rows := rows example_table @ [r], seq := trade_id r\<rparr>, Success)
          \<and> tp r = 50 \<and> sl r = 25 \<and> rr r = example_round2 (example_truediv 50 25))
   \<and> (\<exists>r. insert_trade ''GBPUSD'' ''Sell'' ''2025-03-17 10:00:00'' 1.1 50 25 (7::real) None None
              ''news'' example_table
            = Inr (example_table\<lparr>rows := rows example_table @ [r], seq := trade_id r\<rparr>)
          \<and> tp r = 50 \<and> sl r = 25 \<and> rr r = 7)"
proof -
  have v: "(0::int) < 50" "(0::int) < 25" "(0::real) < 1.1" by simp_all
  from form_rr_recomputed [OF v example_insertable,
      of example_truediv example_round2 "''2025-03-17 10:00:00''" "''GBPUSD''" "''Sell''"
         "[]" 0 "''news''" 7 None None]
    v example_insertable
  show ?thesis by simp
qed

text \<open>
  The claim as worded fails on \<open>insert_trade\<close>: called with \<open>tp = 50\<close>, \<open>sl = 25\<close> and
  \<open>rr = 7\<close> it stores \<open>rr = 7\<close>, and \<open>round(50 / 25, 2)\<close> is 2.
\<close>

theorem insert_trade_rr_counterexample:
  "insert_trade ''GBPUSD'' ''Sell'' ''2025-03-17 10:00:00'' (1.1::real) 50 25 7 None None ''news''
     example_table
   = Inr (example_table\<lparr>rows := example_trades @
            [\<lparr>trade_id = 5, pair = ''GBPUSD'', trade_type = ''Sell'',
              time = ''2025-03-17 10:00:00'', tp = 50, sl = 25, rr = 7, reason = ''news'',
              entry_price = Some 1.1, result = None, pips = None\<rparr>],
          seq := 5\<rparr>)
   \<and> example_round2 (example_truediv 50 25) = 2
   \<and> (7::real) \<noteq> example_round2 (example_truediv 50 25)"
  using insert_trade_ok [OF example_insertable]
  by (simp add: example_largest_rowid example_table_rows example_rr)

text \<open>
  C2: a submission with \<open>tp \<le> 0\<close> or \<open>sl \<le> 0\<close> or \<open>entry_price \<le> 0\<close> returns the store
  it was given together with the error message; \<open>insert_trade\<close> is not reached.
\<close>

theorem invalid_submit_rejected:
  assumes "tp' \<le> 0 \<or> sl' \<le> 0 \<or> entry_price' \<le> 0"
  shows "trade_form truediv round2 now pair' trade_type' entry_price' tp' sl' result' pips'
           reason' t = Inr (t, Rejected)"
  using assms by (auto simp: trade_form_def)

theorem invalid_submit_rejected_witness:
  "(0::int) \<le> 0
   \<and> trade_form example_truediv example_round2 ''2025-03-17 10:00:00'' ''GBPUSD'' ''Sell''
        1.1 50 0 ''Win'' 25 ''news'' example_table = Inr (example_table, Rejected)
   \<and> trade_form example_truediv example_round2 ''2025-03-17 10:00:00'' ''GBPUSD'' ''Sell''
        1.1 (- 5) 25 ''Win'' 25 ''news'' example_table = Inr (example_table, Rejected)
   \<and> trade_form example_truediv example_round2 ''2025-03-17 10:00:00'' ''GBPUSD'' ''Sell''
        0 50 25 ''Win'' 25 ''news'' example_table = Inr (example_table, Rejected)"
proof -
  have a: "(50::int) \<le> 0 \<or> (0::int) \<le> 0 \<or> (1.1::real) \<le> 0" by simp
  have b: "(- 5::int) \<le> 0 \<or> (25::int) \<le> 0 \<or> (1.1::real) \<le> 0" by simp
  have c: "(50::int) \<le> 0 \<or> (25::int) \<le> 0 \<or> (0::real) \<le> 0" by simp
  from invalid_submit_rejected [OF a] invalid_submit_rejected [OF b]
    invalid_submit_rejected [OF c]
  show ?thesis by simp
qed

text \<open>
  C10: on a submission that passes validation the stored row has \<open>result = NULL\<close> when the
  result selection is the empty string and \<open>pips = NULL\<close> when the pips input is 0 (a
  non-empty result and a non-zero pips are stored as given); with pips 0 the store
  is the one \<open>insert_trade\<close> produces when passed no pips.
\<close>

theorem blank_result_zero_pips_null:
  assumes "0 < tp'" and "0 < sl'" and "0 < entry_price'"
    and "has_columns insert_columns t" and "largest_rowid t < max_rowid"
  shows "\<exists>r. trade_form truediv round2 now pair' trade_type' entry_price' tp' sl' result' pips'
                reason' t
              = Inr (t\<lparr>rows := rows t @ [r], seq := trade_id r\<rparr>, Success)
           \<and> (result' = [] \<longrightarrow> result r = None) \<and> (result' \<noteq> [] \<longrightarrow> result r = Some result')
           \<and> (pips' = 0 \<longrightarrow> pips r = None) \<and> (pips' \<noteq> 0 \<longrightarrow> pips r = Some pips')
           \<and> (pips' = 0 \<longrightarrow>
                insert_trade pair' trade_type' now entry_price' tp' sl' (round2 (truediv tp' sl'))
                  (str_or_None result') None reason' t
                = Inr (t\<lparr>rows := rows t @ [r], seq := trade_id r\<rparr>))"
proof -
  let ?r = "\<lparr>trade_id = largest_rowid t + 1, pair = pair', trade_type = trade_type',
             time = now, tp = tp', sl = sl', rr = round2 (truediv tp' sl'), reason = reason',
             entry_price = Some entry_price', result = str_or_None result',
             pips = int_or_None pips'\<rparr>"
  show ?thesis
    using assms
    by (intro exI [of _ ?r])
      (simp add: trade_form_ok insert_trade_ok str_or_None_def int_or_None_def)
qed

theorem blank_result_zero_pips_null_witness:
  "(0::int) < 50 \<and> (0::int) < 25 \<and> (0::real) < 1.1
   \<and> has_columns insert_columns example_table \<and> largest_rowid example_table < max_rowid
   \<and> (\<exists>r. trade_form example_truediv example_round2 ''2025-03-17 10:00:00'' ''GBPUSD'' ''Sell''
              1.1 50 25 [] 0 ''news'' example_table
            = Inr (example_table\<lparr>rows := rows example_table @ [r], seq := trade_id r\<rparr>, Success)
          \<and> result r = None \<and> pips r = None)
   \<and> (\<exists>r. trade_form example_truediv example_round2 ''2025-03-17 10:00:00'' ''GBPUSD'' ''Sell''
              1.1 50 25 ''Win'' 25 ''news'' example_table
            = Inr (example_table\<lparr>rows := rows example_table @ [r], seq := trade_id r\<rparr>, Success)
          \<and> result r = Some ''Win'' \<and> pips r = Some 25)"
proof -
  have v: "(0::int) < 50" "(0::int) < 25" "(0::real) < 1.1" by simp_all
  have a: "\<exists>r. trade_form example_truediv example_round2 ''2025-03-17 10:00:00'' ''GBPUSD'' ''Sell''
              1.1 50 25 [] 0 ''news'' example_table
            = Inr (example_table\<lparr>rows := rows example_table @ [r], seq := trade_id r\<rparr>, Success)
          \<and> result r = None \<and> pips r = None"
    using blank_result_zero_pips_null [OF v example_insertable,
      of example_truediv example_round2 "''2025-03-17 10:00:00''" "''GBPUSD''" "''Sell''"
         "[]" 0 "''news''"]
    by auto
  have b: "\<exists>r. trade_form example_truediv example_round2 ''2025-03-17 10:00:00'' ''GBPUSD'' ''Sell''
              1.1 50 25 ''Win'' 25 ''news'' example_table
            = Inr (example_table\<lparr>rows := rows example_table @ [r], seq := trade_id r\<rparr>, Success)
          \<and> result r = Some ''Win'' \<and> pips r = Some 25"
    using blank_result_zero_pips_null [OF v example_insertable,
      of example_truediv example_round2 "''2025-03-17 10:00:00''" "''GBPUSD''" "''Sell''"
         "''Win''" 25 "''news''"]
    by auto
  from v example_insertable a b show ?thesis by blast
qed

lemma trade_form_example:
  "trade_form example_truediv example_round2 ''2025-03-17 10:00:00'' ''GBPUSD'' ''Sell''
     1.1 50 25 [] 0 ''news'' example_table
   = Inr (example_table\<lparr>rows := example_trades @
            [\<lparr>trade_id = 5, pair = ''GBPUSD'', trade_type = ''Sell'',
              time = ''2025-03-17 10:00:00'', tp = 50, sl = 25, rr = 2, reason = ''news'',
              entry_price = Some 1.1, result = None, pips = None\<rparr>],
          seq := 5\<rparr>, Success)"
proof -
  have v: "(0::int) < 50" "(0::int) < 25" "(0::real) < 1.1" by simp_all
  show ?thesis
    using trade_form_ok [OF v example_insertable]
    by (simp add: example_largest_rowid example_table_rows example_rr str_or_None_def
        int_or_None_def)
qed

end
